theory Spec2Isabelle
  imports Complex_Main "HOL-Library.Multiset" "HOL-Library.Sublist" "HOL-Library.AList"
begin

section \<open>Python text\<close>

text \<open>
  A Python \<open>str\<close> is a \<open>string\<close>. The model is of ASCII text: the character classes
  below are those of Python for code points below 128 (\<open>str.isspace\<close> and the
  regular-expression class \<open>\s\<close> agree there, and so do \<open>\w\<close>, \<open>\d\<close> and
  \<open>str.upper\<close>).
\<close>

definition is_space :: "char \<Rightarrow> bool" where
  "is_space c = (of_char c \<in> {9::nat, 10, 11, 12, 13, 28, 29, 30, 31, 32})"

definition is_digit :: "char \<Rightarrow> bool" where
  "is_digit c = (48 \<le> (of_char c :: nat) \<and> (of_char c :: nat) \<le> 57)"

definition is_upper_letter :: "char \<Rightarrow> bool" where
  "is_upper_letter c = (65 \<le> (of_char c :: nat) \<and> (of_char c :: nat) \<le> 90)"

definition is_lower_letter :: "char \<Rightarrow> bool" where
  "is_lower_letter c = (97 \<le> (of_char c :: nat) \<and> (of_char c :: nat) \<le> 122)"

definition is_word :: "char \<Rightarrow> bool" where
  "is_word c = (is_digit c \<or> is_upper_letter c \<or> is_lower_letter c \<or> c = CHR ''_'')"

definition upper_char :: "char \<Rightarrow> char" where
  "upper_char c = (if is_lower_letter c then char_of (of_char c - (32::nat)) else c)"

definition lower_char :: "char \<Rightarrow> char" where
  "lower_char c = (if is_upper_letter c then char_of (of_char c + (32::nat)) else c)"

definition upper :: "string \<Rightarrow> string" where
  "upper s = map upper_char s"

text \<open>\<open>s.strip()\<close>, \<open>s.rstrip(chars)\<close> and \<open>s.strip(chars)\<close>.\<close>

definition strip :: "string \<Rightarrow> string" where
  "strip s = rev (dropWhile is_space (rev (dropWhile is_space s)))"

definition rstrip_chars :: "string \<Rightarrow> string \<Rightarrow> string" where
  "rstrip_chars cs s = rev (dropWhile (\<lambda>c. c \<in> set cs) (rev s))"

definition strip_chars :: "string \<Rightarrow> string \<Rightarrow> string" where
  "strip_chars cs s = rstrip_chars cs (dropWhile (\<lambda>c. c \<in> set cs) s)"

text \<open>\<open>s.split(',')\<close>: every separator ends a piece, so there is always a piece.\<close>

fun split_on :: "char \<Rightarrow> string \<Rightarrow> string list" where
  "split_on sep [] = [[]]"
| "split_on sep (c # cs) =
     (if c = sep then [] # split_on sep cs
      else (case split_on sep cs of [] \<Rightarrow> [[c]] | w # ws \<Rightarrow> (c # w) # ws))"

text \<open>\<open>s.split()\<close>: the maximal runs of characters that are not white space.\<close>

fun split_ws_acc :: "string \<Rightarrow> string \<Rightarrow> string list" where
  "split_ws_acc w [] = (if w = [] then [] else [rev w])"
| "split_ws_acc w (c # cs) =
     (if is_space c then (if w = [] then split_ws_acc [] cs else rev w # split_ws_acc [] cs)
      else split_ws_acc (c # w) cs)"

definition split_ws :: "string \<Rightarrow> string list" where
  "split_ws s = split_ws_acc [] s"

text \<open>\<open>sep.join(ws)\<close>.\<close>

fun join :: "string \<Rightarrow> string list \<Rightarrow> string" where
  "join sep [] = []"
| "join sep [w] = w"
| "join sep (w # ws) = w @ sep @ join sep ws"

text \<open>\<open>pat in s\<close> and \<open>s.replace(pat, rep)\<close> (left to right, without overlap).\<close>

fun contains :: "string \<Rightarrow> string \<Rightarrow> bool" where
  "contains pat [] = (pat = [])"
| "contains pat (c # cs) = (prefix pat (c # cs) \<or> contains pat cs)"

function replace :: "string \<Rightarrow> string \<Rightarrow> string \<Rightarrow> string" where
  "replace pat rep s =
     (if pat = [] then rep @ concat (map (\<lambda>c. c # rep) s)
      else if prefix pat s then rep @ replace pat rep (drop (length pat) s)
      else (case s of [] \<Rightarrow> [] | c # cs \<Rightarrow> c # replace pat rep cs))"
  by pat_completeness auto
termination
  by (relation "measure (\<lambda>(pat, rep, s). length s)") (auto simp: prefix_def)

declare replace.simps [simp del]

text \<open>Python slices \<open>s[i:j]\<close> with \<open>0 \<le> i\<close>.\<close>

definition slice :: "nat \<Rightarrow> nat \<Rightarrow> 'a list \<Rightarrow> 'a list" where
  "slice i j s = drop i (take j s)"

section \<open>Regular expressions of the module \<open>re\<close>\<close>

text \<open>
  The patterns of the sources are terms of \<open>rx\<close>. \<open>Sym p\<close> is one character of the
  class \<open>p\<close>, \<open>Rep True r\<close> is the greedy \<open>r*\<close> and \<open>Rep False r\<close> the lazy \<open>r*?\<close>,
  \<open>Grp n r\<close> is the capturing group number \<open>n\<close>, \<open>Bol\<close> and \<open>Eol\<close> are \<open>^\<close> and
  \<open>$\<close> (their flag is \<open>re.MULTILINE\<close>), \<open>WordB\<close> is \<open>\b\<close>.

  The matcher is the backtracking one of \<open>re\<close>: from a position it returns every way to
  match, the preferred one first. A position is the character before it (if any), the
  rest of the text, and the groups captured so far.
\<close>

datatype rx =
    Sym "char \<Rightarrow> bool"
  | Eps
  | Seq rx rx
  | Alt rx rx
  | Rep bool rx
  | Grp nat rx
  | Bol bool
  | Eol bool
  | WordB

type_synonym caps = "(nat \<times> string) list"

type_synonym mstate = "char option \<times> string \<times> caps"

function m :: "rx \<Rightarrow> mstate \<Rightarrow> mstate list" where
  "m (Sym p) (prev, s, c) = (case s of [] \<Rightarrow> [] | x # xs \<Rightarrow> if p x then [(Some x, xs, c)] else [])"
| "m Eps st = [st]"
| "m (Seq r1 r2) st = concat (map (m r2) (m r1 st))"
| "m (Alt r1 r2) st = m r1 st @ m r2 st"
| "m (Rep greedy r) (prev, s, c) =
     (let more = concat (map (\<lambda>(prev', s', c').
                    if length s' < length s then m (Rep greedy r) (prev', s', c') else [])
                  (m r (prev, s, c)))
      in if greedy then more @ [(prev, s, c)] else (prev, s, c) # more)"
| "m (Grp n r) (prev, s, c) =
     map (\<lambda>(prev', s', c'). (prev', s', (n, take (length s - length s') s) # c')) (m r (prev, s, c))"
| "m (Bol multiline) (prev, s, c) =
     (if prev = None \<or> (multiline \<and> prev = Some (CHR 0x0A)) then [(prev, s, c)] else [])"
| "m (Eol multiline) (prev, s, c) =
     (if s = [] \<or> s = [CHR 0x0A] \<or> (multiline \<and> take 1 s = [CHR 0x0A]) then [(prev, s, c)] else [])"
| "m WordB (prev, s, c) =
     (if (case prev of None \<Rightarrow> False | Some x \<Rightarrow> is_word x) \<noteq> (case s of [] \<Rightarrow> False | x # _ \<Rightarrow> is_word x)
      then [(prev, s, c)] else [])"
  by pat_completeness auto
termination
  by (relation "inv_image (less_than <*lex*> less_than) (\<lambda>(r, prev, s, c). (size r, length s))") auto

declare m.simps(5) [simp del]

text \<open>A match never moves backwards: what is left is a suffix of the text.\<close>

lemma m_suffix: "(p', s', c') \<in> set (m r (p, s, c)) \<Longrightarrow> suffix s' s"
proof (induction r "(p, s, c)" arbitrary: p s c p' s' c' rule: m.induct)
  case (1 q prev s c)
  then show ?case by (auto split: list.splits if_splits simp: suffix_Cons)
next
  case (2)
  then show ?case by auto
next
  case (3 r1 r2)
  from 3(3) obtain st where st: "st \<in> set (m r1 (p, s, c))" and in2: "(p', s', c') \<in> set (m r2 st)"
    by auto
  obtain p1 s1 c1 where st_eq: "st = (p1, s1, c1)" by (cases st) auto
  from 3(1)[of p1 s1 c1] st st_eq have "suffix s1 s" by simp
  moreover from 3(2)[OF st[unfolded st_eq]] in2 st_eq have "suffix s' s1" by simp
  ultimately show ?case by (rule suffix_order.trans[rotated])
next
  case (4 r1 r2)
  then show ?case by auto
next
  case (5 greedy r prev s c)
  show ?case
  proof (cases "(p', s', c') = (prev, s, c)")
    case True
    then show ?thesis by simp
  next
    case False
    with 5(3) obtain st where st: "st \<in> set (m r (prev, s, c))"
      and in2: "(p', s', c') \<in> set (case st of (prev', s1, c1) \<Rightarrow>
                 if length s1 < length s then m (Rep greedy r) (prev', s1, c1) else [])"
      by (auto simp: m.simps(5)[of greedy r prev s c] Let_def split: if_splits)
    obtain p1 s1 c1 where st_eq: "st = (p1, s1, c1)" by (cases st) auto
    from in2 st_eq have lt: "length s1 < length s" and in3: "(p', s', c') \<in> set (m (Rep greedy r) (p1, s1, c1))"
      by (auto split: if_splits)
    from 5(1)[of p1 s1 c1] st st_eq have "suffix s1 s" by simp
    moreover from 5(2)[OF st[unfolded st_eq] refl refl lt in3] have "suffix s' s1" .
    ultimately show ?thesis by (rule suffix_order.trans[rotated])
  qed
next
  case (6 n r prev s c)
  then show ?case by auto
next
  case (7 ml prev s c)
  then show ?case by (auto split: if_splits)
next
  case (8 ml prev s c)
  then show ?case by (auto split: if_splits)
next
  case (9 prev s c)
  then show ?case by (auto split: if_splits)
qed

text \<open>
  \<open>re.match(r, s)\<close>: the preferred match at the start of the text, as its groups.
\<close>

definition rx_match :: "rx \<Rightarrow> string \<Rightarrow> caps option" where
  "rx_match r s = (case m r (None, s, []) of [] \<Rightarrow> None | (p', s', c) # _ \<Rightarrow> Some c)"

definition group :: "caps \<Rightarrow> nat \<Rightarrow> string option" where
  "group c n = map_of c n"

text \<open>
  \<open>re.search\<close>: the leftmost position with a match. The result is the text before the
  match, the matched text, the text after it, and the groups.
\<close>

fun search :: "rx \<Rightarrow> char option \<Rightarrow> string \<Rightarrow> (string \<times> string \<times> string \<times> caps) option" where
  "search r prev [] =
     (case m r (prev, [], []) of
        (p', s', c) # _ \<Rightarrow> Some ([], [], s', c)
      | [] \<Rightarrow> None)"
| "search r prev (x # xs) =
     (case m r (prev, x # xs, []) of
        (p', s', c) # _ \<Rightarrow> Some ([], take (length (x # xs) - length s') (x # xs), s', c)
      | [] \<Rightarrow> map_option (\<lambda>(b, mt, a, c). (x # b, mt, a, c)) (search r (Some x) xs))"

lemma search_parts: "search r prev s = Some (b, mt, a, c) \<Longrightarrow> s = b @ mt @ a"
proof (induction s arbitrary: prev b)
  case Nil
  then obtain p' where "(p', a, c) \<in> set (m r (prev, [], []))" and "b = []" "mt = []"
    by (auto split: list.splits)
  then show ?case using m_suffix[of p' a c r prev "[]" "[]"] by simp
next
  case (Cons x xs)
  show ?case
  proof (cases "m r (prev, x # xs, [])")
    case Nil
    with Cons.prems obtain b' where "search r (Some x) xs = Some (b', mt, a, c)" and "b = x # b'"
      by auto
    with Cons.IH show ?thesis by auto
  next
    case (Cons st sts)
    obtain p' s' c' where st: "st = (p', s', c')" by (cases st) auto
    with Cons Cons.prems have eqs: "b = []" "mt = take (length (x # xs) - length s') (x # xs)" "a = s'"
      by auto
    from Cons st have "(p', s', c') \<in> set (m r (prev, x # xs, []))" by simp
    then have "suffix s' (x # xs)" by (rule m_suffix)
    then obtain pre where "x # xs = pre @ s'" by (auto simp: suffix_def)
    with eqs show ?thesis by auto
  qed
qed

text \<open>
  \<open>re.sub(r, repl, s)\<close>: the matches are found from left to right without overlap and
  replaced. After an empty match the next character is copied. \<open>repl\<close> receives the
  matched text and the groups.
\<close>

function sub :: "rx \<Rightarrow> (string \<Rightarrow> caps \<Rightarrow> string) \<Rightarrow> char option \<Rightarrow> string \<Rightarrow> string" where
  "sub r repl prev s =
     (case search r prev s of
        None \<Rightarrow> s
      | Some (b, mt, a, c) \<Rightarrow>
          b @ repl mt c @
          (if mt \<noteq> [] then sub r repl (Some (last mt)) a
           else (case a of [] \<Rightarrow> [] | x # xs \<Rightarrow> x # sub r repl (Some x) xs)))"
  by pat_completeness auto
termination
proof (relation "measure (\<lambda>(r, repl, prev, s). length s)", goal_cases)
  case 1
  then show ?case by simp
next
  case (2 r repl prev s x2 b y mt ya a c)
  then have "s = b @ mt @ a" by (auto dest: search_parts)
  with 2 show ?case by simp
next
  case (3 r repl prev s x2 b y mt ya a c x xs)
  then have "s = b @ mt @ a" by (auto dest: search_parts)
  with 3 show ?case by simp
qed

declare sub.simps [simp del]

definition re_sub :: "rx \<Rightarrow> string \<Rightarrow> string \<Rightarrow> string" where
  "re_sub r rep s = sub r (\<lambda>mt c. rep) None s"

text \<open>
  \<open>re.split(r, s)\<close>: the pieces between the matches, and after each piece the groups
  of the match that ended it.
\<close>

function split_rx :: "rx \<Rightarrow> nat list \<Rightarrow> char option \<Rightarrow> string \<Rightarrow> string \<Rightarrow> string option list" where
  "split_rx r groups prev piece s =
     (case search r prev s of
        None \<Rightarrow> [Some (piece @ s)]
      | Some (b, mt, a, c) \<Rightarrow>
          if mt \<noteq> [] then Some (piece @ b) # map (group c) groups @ split_rx r groups (Some (last mt)) [] a
          else (case a of
                  [] \<Rightarrow> [Some (piece @ b)]
                | x # xs \<Rightarrow> split_rx r groups (Some x) (piece @ b @ [x]) xs))"
  by pat_completeness auto
termination
proof (relation "measure (\<lambda>(r, groups, prev, piece, s). length s)", goal_cases)
  case 1
  then show ?case by simp
next
  case (2 r groups prev piece s x2 b y mt ya a c)
  then have "s = b @ mt @ a" by (auto dest: search_parts)
  with 2 show ?case by simp
next
  case (3 r groups prev piece s x2 b y mt ya a c x xs)
  then have "s = b @ mt @ a" by (auto dest: search_parts)
  with 3 show ?case by simp
qed

declare split_rx.simps [simp del]

text \<open>\<open>re.findall(r, s)\<close> for a pattern without groups: the matched texts.\<close>

function findall :: "rx \<Rightarrow> char option \<Rightarrow> string \<Rightarrow> string list" where
  "findall r prev s =
     (case search r prev s of
        None \<Rightarrow> []
      | Some (b, mt, a, c) \<Rightarrow>
          mt # (if mt \<noteq> [] then findall r (Some (last mt)) a
                else (case a of [] \<Rightarrow> [] | x # xs \<Rightarrow> findall r (Some x) xs)))"
  by pat_completeness auto
termination
proof (relation "measure (\<lambda>(r, prev, s). length s)", goal_cases)
  case 1
  then show ?case by simp
next
  case (2 r prev s x2 b y mt ya a c)
  then have "s = b @ mt @ a" by (auto dest: search_parts)
  with 2 show ?case by simp
next
  case (3 r prev s x2 b y mt ya a c x xs)
  then have "s = b @ mt @ a" by (auto dest: search_parts)
  with 3 show ?case by simp
qed

declare findall.simps [simp del]

text \<open>
  Pattern syntax: \<open>r+\<close> and \<open>r+?\<close>, \<open>r?\<close>, a literal text, a literal text under
  \<open>re.IGNORECASE\<close>, \<open>.\<close> (without and with \<open>re.DOTALL\<close>) and \<open>\s\<close>.
\<close>

definition Plus :: "bool \<Rightarrow> rx \<Rightarrow> rx" where
  "Plus greedy r = Seq r (Rep greedy r)"

definition Opt :: "rx \<Rightarrow> rx" where
  "Opt r = Alt r Eps"

definition chr :: "char \<Rightarrow> rx" where
  "chr c = Sym (\<lambda>x. x = c)"

definition chr_i :: "char \<Rightarrow> rx" where
  "chr_i c = Sym (\<lambda>x. lower_char x = lower_char c)"

definition lit :: "string \<Rightarrow> rx" where
  "lit s = foldr (\<lambda>c r. Seq (chr c) r) s Eps"

definition lit_i :: "string \<Rightarrow> rx" where
  "lit_i s = foldr (\<lambda>c r. Seq (chr_i c) r) s Eps"

definition seqs :: "rx list \<Rightarrow> rx" where
  "seqs rs = foldr Seq rs Eps"

definition dot :: rx where
  "dot = Sym (\<lambda>x. x \<noteq> CHR 0x0A)"

definition dot_all :: rx where
  "dot_all = Sym (\<lambda>x. True)"

definition ws :: rx where
  "ws = Sym is_space"

section \<open>Task graph and scheduler (evaluation/dag/base.py)\<close>

text \<open>
  A Python value of type \<open>Any\<close> is a value of the type parameter \<open>'v\<close>; \<open>'v option\<close>
  adds Python's \<open>None\<close>. The keyword arguments of a task function are a dictionary from
  parameter names to values. An exception is represented by its message \<open>str(e)\<close>.
  The clock readings (\<open>execution_time_ms\<close>, \<open>timestamp\<close>) and the logger calls are
  not part of the model.
\<close>

type_synonym 'v kwargs = "string \<rightharpoonup> 'v option"

record 'v TaskResult =
  task_name :: string
  success :: bool
  data :: "'v option"
  error :: "string option"

record 'v TaskDefinition =
  name :: string
  func :: "'v kwargs \<Rightarrow> string + 'v option"
  depends_on :: "string list"
  description :: "string option"

text \<open>
  \<open>self.tasks\<close> is a dictionary in insertion order. \<open>self.graph\<close> is only changed
  by \<open>add_task\<close>, which adds the node \<open>name\<close> and one edge \<open>(dep, name)\<close> for every
  dependency, so the graph is the list of the tasks' names with their dependencies.
\<close>

type_synonym 'v tasks = "(string \<times> 'v TaskDefinition) list"

type_synonym graph = "(string \<times> string list) list"

definition graph_of :: "'v tasks \<Rightarrow> graph" where
  "graph_of ts = map (\<lambda>(n, d). (n, depends_on d)) ts"

text \<open>
  \<open>add_task\<close>: a \<open>ValueError\<close> when the name is taken or a dependency is not
  registered yet, otherwise the task is appended.
\<close>

definition add_task ::
  "'v tasks \<Rightarrow> string \<Rightarrow> ('v kwargs \<Rightarrow> string + 'v option) \<Rightarrow> string list \<Rightarrow> string option
    \<Rightarrow> string + 'v tasks" where
  "add_task ts n f deps descr =
     (if n \<in> fst ` set ts then Inl (''Task '' @ [CHR 0x27] @ n @ [CHR 0x27] @ '' already exists in DAG'')
      else case filter (\<lambda>dep. dep \<notin> fst ` set ts) deps of
        dep # _ \<Rightarrow> Inl (''Dependency '' @ [CHR 0x27] @ dep @ [CHR 0x27] @ '' not found for task ''
                        @ [CHR 0x27] @ n @ [CHR 0x27])
      | [] \<Rightarrow> Inr (ts @ [(n, \<lparr>name = n, func = f, depends_on = deps, description = descr\<rparr>)]))"

text \<open>
  The state of one run of \<open>execute\<close>: the dictionary \<open>self.results\<close>, and the names
  of the tasks whose function has been called so far, in call order. The second
  component is the trace of the effect \<open>task_def.func(**task_inputs)\<close>.
\<close>

record 'v run_state =
  results :: "string \<rightharpoonup> 'v TaskResult"
  invoked :: "string list"

text \<open>
  The inner loop \<open>for dep_name in task_def.depends_on\<close> (lines 187-202). A
  successful dependency adds its data to the inputs. A failed dependency stores the
  dependency-failure result under the task's own name and executes \<open>continue\<close>,
  which resumes this inner loop with the next dependency.
\<close>

fun collect_inputs ::
  "string \<Rightarrow> string list \<Rightarrow> (string \<rightharpoonup> 'v TaskResult) \<Rightarrow> 'v kwargs
    \<Rightarrow> (string \<rightharpoonup> 'v TaskResult) \<times> 'v kwargs" where
  "collect_inputs tn [] res inp = (res, inp)"
| "collect_inputs tn (dep_name # deps) res inp =
     (case res dep_name of
        None \<Rightarrow> collect_inputs tn deps res inp
      | Some dep_result \<Rightarrow>
          if success dep_result
          then collect_inputs tn deps res (inp(dep_name \<mapsto> data dep_result))
          else collect_inputs tn deps
                 (res(tn \<mapsto> \<lparr>task_name = tn, success = False, data = None,
                               error = Some (''Dependency '' @ [CHR 0x27] @ dep_name @ [CHR 0x27] @ '' failed'')\<rparr>))
                 inp)"

text \<open>
  One iteration of the outer loop (lines 173-233): the inputs are prepared, then the
  statement after the inner loop calls the task's function inside \<open>try\<close>.
\<close>

definition run_task ::
  "'v kwargs \<Rightarrow> 'v TaskDefinition \<Rightarrow> 'v run_state \<Rightarrow> 'v run_state" where
  "run_task initial_data task_def st =
     (let tn = name task_def;
          (res, task_inputs) = collect_inputs tn (depends_on task_def) (results st) initial_data
      in case func task_def task_inputs of
           Inr result_data \<Rightarrow>
             \<lparr>results = res(tn \<mapsto> \<lparr>task_name = tn, success = True, data = result_data, error = None\<rparr>),
              invoked = invoked st @ [tn]\<rparr>
         | Inl error_msg \<Rightarrow>
             \<lparr>results = res(tn \<mapsto> \<lparr>task_name = tn, success = False, data = None, error = Some error_msg\<rparr>),
              invoked = invoked st @ [tn]\<rparr>)"

text \<open>
  The outer loop over the execution order. \<open>self.tasks[task_name]\<close> raises
  \<open>KeyError\<close> outside any \<open>try\<close> when the name is unknown.
\<close>

fun run_order ::
  "'v kwargs \<Rightarrow> 'v tasks \<Rightarrow> string list \<Rightarrow> 'v run_state \<Rightarrow> string + 'v run_state" where
  "run_order initial_data ts [] st = Inr st"
| "run_order initial_data ts (tn # order) st =
     (case map_of ts tn of
        None \<Rightarrow> Inl (''KeyError: '' @ tn)
      | Some task_def \<Rightarrow> run_order initial_data ts order (run_task initial_data task_def st))"

text \<open>
  \<open>execute\<close>. The two calls into networkx are one parameter: \<open>topological_sort\<close>
  returns a topological order of the graph, or \<open>None\<close> when the graph has a cycle
  (then \<open>validate\<close> is false and \<open>execute\<close> raises \<open>RuntimeError\<close>).
\<close>

definition validate :: "(graph \<Rightarrow> string list option) \<Rightarrow> 'v tasks \<Rightarrow> bool" where
  "validate topological_sort ts = (topological_sort (graph_of ts) \<noteq> None)"

definition execute ::
  "(graph \<Rightarrow> string list option) \<Rightarrow> 'v tasks \<Rightarrow> 'v kwargs \<Rightarrow> string + 'v run_state" where
  "execute topological_sort ts initial_data =
     (case topological_sort (graph_of ts) of
        None \<Rightarrow> Inl ''Cannot execute invalid DAG''
      | Some execution_order \<Rightarrow>
          run_order initial_data ts execution_order \<lparr>results = Map.empty, invoked = []\<rparr>)"

text \<open>
  A two-task pipeline: \<open>load\<close> raises, \<open>report\<close> depends on \<open>load\<close> and accepts
  any keyword arguments (as every task function of evaluation/dag/tasks.py does with
  \<open>**kwargs\<close>), returning the value \<open>7\<close>.
\<close>

definition failing_load :: "nat kwargs \<Rightarrow> string + nat option" where
  "failing_load kw = Inl ''boom''"

definition report_task :: "nat kwargs \<Rightarrow> string + nat option" where
  "report_task kw = Inr (Some 7)"

definition two_tasks :: "nat tasks" where
  "two_tasks =
     [(''load'', \<lparr>name = ''load'', func = failing_load, depends_on = [], description = None\<rparr>),
      (''report'', \<lparr>name = ''report'', func = report_task, depends_on = [''load''], description = None\<rparr>)]"

definition insertion_order :: "graph \<Rightarrow> string list option" where
  "insertion_order g = Some (map fst g)"

section \<open>SQL normalizer (evaluation/metrics/base\_metrics.py)\<close>

text \<open>
  The tokens of the library sqlparse. A token type is its path below \<open>Token\<close>
  (\<open>Token.Keyword.DML\<close> is \<open>[''Keyword'', ''DML'']\<close>); \<open>ttype in tokens.Keyword\<close> holds
  for the type \<open>Keyword\<close> and the types below it. A token group has the type \<open>None\<close>
  and the attribute \<open>tokens\<close>.
\<close>

type_synonym ttype = "string list"

datatype token = Token ttype string | TokenList "token list"

definition Keyword :: ttype where "Keyword = [''Keyword'']"
definition Name :: ttype where "Name = [''Name'']"
definition Whitespace :: ttype where "Whitespace = [''Text'', ''Whitespace'']"
definition Comment_Single :: ttype where "Comment_Single = [''Comment'', ''Single'']"
definition Comment_Multiline :: ttype where "Comment_Multiline = [''Comment'', ''Multiline'']"
definition Punctuation :: ttype where "Punctuation = [''Punctuation'']"
definition Number_Integer :: ttype where "Number_Integer = [''Literal'', ''Number'', ''Integer'']"

definition ttype_in :: "ttype \<Rightarrow> ttype \<Rightarrow> bool" where
  "ttype_in t parent = prefix parent t"

text \<open>
  The parser is a parameter of the model: \<open>parse sql\<close> is the token list of
  \<open>sqlparse.parse(sql)[0]\<close>, or the message of the exception raised.
\<close>

type_synonym parser = "string \<Rightarrow> string + token list"

text \<open>\<open>_normalize_token\<close>\<close>

definition normalize_token :: "ttype \<Rightarrow> string \<Rightarrow> string" where
  "normalize_token ty v =
     (if ttype_in ty Keyword then upper v
      else if ttype_in ty Name then
        (if prefix [CHR 0x22] v \<and> suffix [CHR 0x22] v
         then [CHR 0x22] @ butlast (tl v) @ [CHR 0x22] else v)
      else v)"

text \<open>
  The loop of \<open>_normalize_statement\<close> and of \<open>_normalize_token_group\<close> over the
  tokens, with the list \<open>normalized_tokens\<close> built so far, and \<open>_normalize_token_group\<close>
  itself.
\<close>

fun normalize_token_group :: "token \<Rightarrow> string"
  and normalize_tokens :: "token list \<Rightarrow> string list \<Rightarrow> string list" where
  "normalize_token_group (Token ty v) = normalize_token ty v"
| "normalize_token_group (TokenList ts) = concat (normalize_tokens ts [])"
| "normalize_tokens [] normalized = normalized"
| "normalize_tokens (Token ty v # ts) normalized =
     (if ty = Comment_Single \<or> ty = Comment_Multiline then normalize_tokens ts normalized
      else if ttype_in ty Whitespace then
        (if normalized \<noteq> [] \<and> last normalized \<noteq> '' ''
         then normalize_tokens ts (normalized @ ['' ''])
         else normalize_tokens ts normalized)
      else normalize_tokens ts (normalized @ [normalize_token ty v]))"
| "normalize_tokens (TokenList g # ts) normalized =
     normalize_tokens ts (normalized @ [normalize_token_group (TokenList g)])"

text \<open>The white-space pattern \<open>\s+\<close>.\<close>

definition rx_spaces :: rx where
  "rx_spaces = Plus True ws"

definition normalize_statement :: "token list \<Rightarrow> string" where
  "normalize_statement ts =
     (let result = strip (concat (normalize_tokens ts []));
          result = re_sub rx_spaces '' '' result
      in rstrip_chars '';'' result)"

text \<open>
  \<open>_basic_normalize\<close>: the patterns are \<open>--.*$\<close> under \<open>re.MULTILINE\<close> and
  \<open>/\*.*?\*/\<close> under \<open>re.DOTALL\<close>.
\<close>

definition rx_line_comment :: rx where
  "rx_line_comment = seqs [lit ''--'', Rep True dot, Eol True]"

definition rx_block_comment :: rx where
  "rx_block_comment = seqs [lit ''/*'', Rep False dot_all, lit ''*/'']"

definition basic_normalize :: "string \<Rightarrow> string" where
  "basic_normalize sql_query =
     (let q = re_sub rx_line_comment [] sql_query;
          q = re_sub rx_block_comment [] q;
          q = re_sub rx_spaces '' '' (strip q)
      in rstrip_chars '';'' q)"

text \<open>\<open>normalize_sql\<close>\<close>

definition normalize_sql :: "parser \<Rightarrow> string \<Rightarrow> string" where
  "normalize_sql parse sql_query =
     (if sql_query = [] \<or> strip sql_query = [] then []
      else case parse sql_query of
             Inr ts \<Rightarrow> normalize_statement ts
           | Inl e \<Rightarrow> basic_normalize sql_query)"

section \<open>Metric results and contexts (evaluation/metrics/base\_metrics.py)\<close>

text \<open>
  The values of a result row. A value with a method \<open>isoformat\<close> (a date or a time) is
  given by the text \<open>isoformat()\<close> returns, any other object by its \<open>str\<close>. Floats
  are idealised as real numbers.
\<close>

datatype pyval =
    PNone
  | PBool bool
  | PInt int
  | PFloat real
  | PStr string
  | PTemporal string
  | POther string

type_synonym row = "pyval list"

text \<open>
  The values left by \<open>_normalize_value\<close> are \<open>None\<close>, numbers and texts. Python
  compares and hashes numbers by value (\<open>True == 1 == 1.0\<close>), so a number is given by
  its value: two normalized values are equal in Python exactly when they are equal here.
\<close>

datatype nval = NNone | NNum real | NStr string

text \<open>The values stored in \<open>details\<close>.\<close>

datatype detail =
    DNone
  | DBool bool
  | DInt int
  | DNum real
  | DStr string
  | DVal nval
  | DList "detail list"
  | DDict "(string \<times> detail) list"

type_synonym pydict = "(string \<times> detail) list"

text \<open>\<open>d.update(e)\<close> on dictionaries in insertion order.\<close>

definition dict_update :: "pydict \<Rightarrow> pydict \<Rightarrow> pydict" where
  "dict_update d e = foldl (\<lambda>acc (k, v). AList.update k v acc) d e"

record MetricResult =
  metric_name :: string
  score :: real
  is_correct :: bool
  details :: pydict
  error_message :: "string option"

text \<open>
  A cursor executes a statement (and may raise), then \<open>fetchall\<close> returns the rows of
  that statement (or raises). A database handle is one of the three kinds that
  \<open>_execute_query\<close> tells apart: an object with \<open>execute_query\<close>, an object with
  \<open>get_raw_connection\<close>, a plain connection. The database is fixed during an
  evaluation: what a statement returns depends on its text only.
\<close>

datatype cursor =
  Cursor (cursor_execute: "string \<Rightarrow> string option") (cursor_fetchall: "string \<Rightarrow> string + row list")

datatype db =
    Has_execute_query "string \<Rightarrow> string + (row list option \<times> string option)"
  | Has_get_raw_connection "string + cursor"
  | Plain_connection "string + cursor"

record EvaluationContext =
  question_id :: string
  question :: string
  ground_truth_sql :: "string option"
  predicted_sql :: "string option"
  database_connection :: "db option"
  tables_info :: "pydict option"

text \<open>\<open>not sql\<close> for a text that may be \<open>None\<close>, and the text itself.\<close>

definition not_str :: "string option \<Rightarrow> bool" where
  "not_str x = (x = None \<or> x = Some [])"

definition str_of :: "string option \<Rightarrow> string" where
  "str_of x = (case x of None \<Rightarrow> [] | Some s \<Rightarrow> s)"

definition create_result :: "string \<Rightarrow> real \<Rightarrow> bool \<Rightarrow> pydict \<Rightarrow> string option \<Rightarrow> MetricResult" where
  "create_result nm sc ok det err =
     \<lparr>metric_name = nm, score = sc, is_correct = ok, details = det, error_message = err\<rparr>"

text \<open>
  \<open>_safe_evaluate\<close>: \<open>evaluation_func\<close> returns a result or raises an exception
  (\<open>Inl\<close> of its message); the \<open>except Exception\<close> branch turns the exception into a
  result.
\<close>

definition safe_evaluate ::
  "string \<Rightarrow> EvaluationContext \<Rightarrow> (EvaluationContext \<Rightarrow> string + MetricResult) \<Rightarrow> string + MetricResult" where
  "safe_evaluate nm ctx evaluation_func =
     (case evaluation_func ctx of
        Inr r \<Rightarrow> Inr r
      | Inl e \<Rightarrow> Inr (create_result nm 0 False [(''error'', DStr e)]
                       (Some (''Error in '' @ nm @ '': '' @ e))))"

section \<open>Exact Match (evaluation/metrics/exact\_match.py)\<close>

definition EM_name :: string where
  "EM_name = ''Exact Match (EM)''"

text \<open>\<open>_detect_common_errors\<close>\<close>

definition clause_errors :: "string \<Rightarrow> string \<Rightarrow> string \<Rightarrow> string list" where
  "clause_errors gt_upper pred_upper clause =
     (let gt_has = contains clause gt_upper; pred_has = contains clause pred_upper
      in if gt_has \<and> \<not> pred_has then [''Missing '' @ clause @ '' clause'']
         else if \<not> gt_has \<and> pred_has then [''Extra '' @ clause @ '' clause'']
         else [])"

definition count_aggregates :: "string \<Rightarrow> nat" where
  "count_aggregates s =
     length (filter (\<lambda>word. word \<in> set [''COUNT'', ''SUM'', ''AVG'', ''MIN'', ''MAX'']) (split_ws (upper s)))"

definition detect_common_errors :: "string \<Rightarrow> string \<Rightarrow> string list" where
  "detect_common_errors gt_normalized pred_normalized =
     (let gt_upper = upper gt_normalized; pred_upper = upper pred_normalized
      in concat (map (clause_errors gt_upper pred_upper)
                   [''SELECT'', ''FROM'', ''WHERE'', ''GROUP BY'', ''ORDER BY'', ''HAVING'', ''LIMIT''])
         @ (if count_list gt_normalized (CHR 0x22) \<noteq> count_list pred_normalized (CHR 0x22)
            then [''Quote mismatch (identifier quoting)''] else [])
         @ (if count_aggregates gt_normalized \<noteq> count_aggregates pred_normalized
            then [''Aggregate function count mismatch''] else [])
         @ (if contains ''JOIN'' gt_upper \<and> \<not> contains ''JOIN'' pred_upper then [''Missing JOIN operation'']
            else if \<not> contains ''JOIN'' gt_upper \<and> contains ''JOIN'' pred_upper then [''Unexpected JOIN operation'']
            else []))"

text \<open>\<open>_analyze_differences\<close>\<close>

fun first_diff :: "string \<Rightarrow> string \<Rightarrow> nat \<Rightarrow> nat option" where
  "first_diff (x # xs) (y # ys) i = (if x \<noteq> y then Some i else first_diff xs ys (Suc i))"
| "first_diff _ _ i = None"

definition differing_word :: "string list \<Rightarrow> string list \<Rightarrow> nat \<Rightarrow> detail list" where
  "differing_word gt_words pred_words i =
     (let gt_word = (if i < length gt_words then gt_words ! i else ''<MISSING>'');
          pred_word = (if i < length pred_words then pred_words ! i else ''<EXTRA>'')
      in if gt_word \<noteq> pred_word
         then [DDict [(''position'', DInt (int i)), (''ground_truth'', DStr gt_word), (''predicted'', DStr pred_word)]]
         else [])"

definition analyze_differences :: "string \<Rightarrow> string \<Rightarrow> pydict" where
  "analyze_differences gt_normalized pred_normalized =
     (let gt_words = split_ws gt_normalized;
          pred_words = split_ws pred_normalized;
          max_words = max (length gt_words) (length pred_words)
      in [(''length_difference'', DInt (int (length pred_normalized) - int (length gt_normalized)))]
         @ (if length gt_normalized > 0 \<and> length pred_normalized > 0 then
              (case first_diff gt_normalized pred_normalized 0 of
                 None \<Rightarrow> []
               | Some fd \<Rightarrow>
                   [(''first_difference_position'', DInt (int fd)),
                    (''first_difference_context'',
                       DDict [(''ground_truth'', DStr (slice (fd - 10) (fd + 10) gt_normalized)),
                              (''predicted'', DStr (slice (fd - 10) (fd + 10) pred_normalized))])])
            else [])
         @ [(''word_count_difference'', DInt (int (length pred_words) - int (length gt_words))),
            (''differing_words'', DList (take 5 (concat (map (differing_word gt_words pred_words) [0..<max_words])))),
            (''common_errors'', DList (map DStr (detect_common_errors gt_normalized pred_normalized)))])"

text \<open>\<open>_evaluate_exact_match\<close> and \<open>evaluate\<close>\<close>

definition evaluate_exact_match :: "parser \<Rightarrow> EvaluationContext \<Rightarrow> string + MetricResult" where
  "evaluate_exact_match parse ctx =
     (if not_str (ground_truth_sql ctx) \<or> not_str (predicted_sql ctx) then
        Inr (create_result EM_name 0 False
               [(''ground_truth_normalized'', DStr []), (''predicted_normalized'', DStr []),
                (''reason'', DStr ''Empty or missing SQL query'')] None)
      else
        (let gt = str_of (ground_truth_sql ctx);
             pred = str_of (predicted_sql ctx);
             gt_normalized = normalize_sql parse gt;
             pred_normalized = normalize_sql parse pred;
             is_exact_match = (gt_normalized = pred_normalized);
             det = [(''ground_truth_original'', DStr gt), (''predicted_original'', DStr pred),
                    (''ground_truth_normalized'', DStr gt_normalized),
                    (''predicted_normalized'', DStr pred_normalized),
                    (''match'', DBool is_exact_match)];
             det = (if \<not> is_exact_match
                    then dict_update det (analyze_differences gt_normalized pred_normalized) else det)
         in Inr (create_result EM_name (if is_exact_match then 1 else 0) is_exact_match det None)))"

definition EM_evaluate :: "parser \<Rightarrow> EvaluationContext \<Rightarrow> string + MetricResult" where
  "EM_evaluate parse ctx = safe_evaluate EM_name ctx (evaluate_exact_match parse)"

section \<open>Execution Accuracy (evaluation/metrics/execution\_accuracy.py)\<close>

definition EX_name :: string where
  "EX_name = ''Execution Accuracy (EX)''"

text \<open>\<open>str(n)\<close> for an integer.\<close>

function str_nat :: "nat \<Rightarrow> string" where
  "str_nat n = (if n < 10 then [char_of (48 + n)] else str_nat (n div 10) @ [char_of (48 + n mod 10)])"
  by pat_completeness auto
termination
  by (relation "measure id") auto

declare str_nat.simps [simp del]

definition str_int :: "int \<Rightarrow> string" where
  "str_int i = (if i < 0 then ''-'' @ str_nat (nat (- i)) else str_nat (nat i))"

text \<open>
  \<open>_execute_query\<close>. Next to the pair \<open>(results, error)\<close> the model returns the
  statements that were handed to the database, in order.
\<close>

definition run_cursor :: "int \<Rightarrow> string + cursor \<Rightarrow> string \<Rightarrow> (row list option \<times> string option) \<times> string list" where
  "run_cursor execution_timeout cur sql_query =
     (case cur of
        Inl e \<Rightarrow> ((None, Some (''Query execution error: '' @ e)), [])
      | Inr c \<Rightarrow>
          (let set_timeout = ''SET statement_timeout = '' @ str_int (execution_timeout * 1000)
           in case cursor_execute c set_timeout of
                Some e \<Rightarrow> ((None, Some (''Query execution error: '' @ e)), [set_timeout])
              | None \<Rightarrow>
                  (case cursor_execute c sql_query of
                     Some e \<Rightarrow> ((None, Some (''Query execution error: '' @ e)), [set_timeout, sql_query])
                   | None \<Rightarrow>
                       (case cursor_fetchall c sql_query of
                          Inr fetched \<Rightarrow> ((Some fetched, None), [set_timeout, sql_query])
                        | Inl e \<Rightarrow> ((Some [], None), [set_timeout, sql_query])))))"

definition execute_query :: "int \<Rightarrow> string \<Rightarrow> db \<Rightarrow> (row list option \<times> string option) \<times> string list" where
  "execute_query execution_timeout sql_query db_connection =
     (case db_connection of
        Has_execute_query f \<Rightarrow>
          (case f sql_query of
             Inr res \<Rightarrow> (res, [sql_query])
           | Inl e \<Rightarrow> ((None, Some (''Query execution error: '' @ e)), [sql_query]))
      | Has_get_raw_connection cur \<Rightarrow> run_cursor execution_timeout cur sql_query
      | Plain_connection cur \<Rightarrow> run_cursor execution_timeout cur sql_query)"

text \<open>\<open>_normalize_value\<close> and \<open>_normalize_results\<close>; \<open>round(value, 10)\<close> rounds half to even.\<close>

definition round_half_even :: "real \<Rightarrow> int" where
  "round_half_even y =
     (let f = \<lfloor>y\<rfloor>; d = y - of_int f
      in if d < 1 / 2 then f else if d > 1 / 2 then f + 1 else if even f then f else f + 1)"

definition round10 :: "real \<Rightarrow> real" where
  "round10 x = of_int (round_half_even (x * 10 ^ 10)) / 10 ^ 10"

fun normalize_value :: "pyval \<Rightarrow> nval" where
  "normalize_value PNone = NNone"
| "normalize_value (PBool b) = NNum (if b then 1 else 0)"
| "normalize_value (PInt i) = NNum (of_int i)"
| "normalize_value (PFloat x) = NNum (round10 x)"
| "normalize_value (PStr s) = NStr (strip s)"
| "normalize_value (PTemporal isoformat) = NStr isoformat"
| "normalize_value (POther s) = NStr s"

definition normalize_results :: "row list \<Rightarrow> nval list list" where
  "normalize_results rows = map (map normalize_value) rows"

text \<open>
  \<open>collections.Counter\<close>: a dictionary from the elements to their positive counts, in
  the order of first insertion. Equality of counters compares the counts of every
  element of either side, a missing element counting zero.
\<close>

type_synonym 'a counter = "('a \<times> nat) list"

fun counter_add :: "'a \<Rightarrow> 'a counter \<Rightarrow> 'a counter" where
  "counter_add x [] = [(x, 1)]"
| "counter_add x ((k, n) # c) = (if k = x then (k, Suc n) # c else (k, n) # counter_add x c)"

definition Counter :: "'a list \<Rightarrow> 'a counter" where
  "Counter xs = foldl (\<lambda>c x. counter_add x c) [] xs"

definition counter_get :: "'a counter \<Rightarrow> 'a \<Rightarrow> nat" where
  "counter_get c k = (case map_of c k of None \<Rightarrow> 0 | Some n \<Rightarrow> n)"

definition counter_eq :: "'a counter \<Rightarrow> 'a counter \<Rightarrow> bool" where
  "counter_eq c d =
     (list_all (\<lambda>(k, n). counter_get d k = n) c \<and> list_all (\<lambda>(k, n). counter_get c k = n) d)"

definition counter_sub :: "'a counter \<Rightarrow> 'a counter \<Rightarrow> 'a counter" where
  "counter_sub c d = concat (map (\<lambda>(k, n). if n > counter_get d k then [(k, n - counter_get d k)] else []) c)"

definition counter_and :: "'a counter \<Rightarrow> 'a counter \<Rightarrow> 'a counter" where
  "counter_and c d = concat (map (\<lambda>(k, n). if min n (counter_get d k) > 0 then [(k, min n (counter_get d k))] else []) c)"

definition counter_or :: "'a counter \<Rightarrow> 'a counter \<Rightarrow> 'a counter" where
  "counter_or c d =
     map (\<lambda>(k, n). (k, max n (counter_get d k))) c @ filter (\<lambda>(k, n). map_of c k = None) d"

definition elements :: "'a counter \<Rightarrow> 'a list" where
  "elements c = concat (map (\<lambda>(k, n). replicate n k) c)"

definition counter_total :: "'a counter \<Rightarrow> nat" where
  "counter_total c = sum_list (map snd c)"

text \<open>\<open>_compare_results\<close>\<close>

definition rows_detail :: "nval list list \<Rightarrow> detail" where
  "rows_detail rows = DList (map (\<lambda>r. DList (map DVal r)) rows)"

definition compare_results :: "row list option \<Rightarrow> row list option \<Rightarrow> bool \<times> pydict" where
  "compare_results gt_res pred_res =
     (let gt_results = (case gt_res of None \<Rightarrow> [] | Some rs \<Rightarrow> rs);
          pred_results = (case pred_res of None \<Rightarrow> [] | Some rs \<Rightarrow> rs)
      in if length gt_results \<noteq> length pred_results then
           (False, [(''size_mismatch'', DBool True),
                    (''gt_size'', DInt (int (length gt_results))),
                    (''pred_size'', DInt (int (length pred_results))),
                    (''size_difference'', DInt (int (length pred_results) - int (length gt_results)))])
         else if length gt_results = 0 then
           (True, [(''both_empty'', DBool True), (''gt_size'', DInt 0), (''pred_size'', DInt 0)])
         else
           (let gt_counter = Counter (normalize_results gt_results);
                pred_counter = Counter (normalize_results pred_results);
                results_match = counter_eq gt_counter pred_counter;
                comparison_details =
                  [(''gt_size'', DInt (int (length gt_results))),
                   (''pred_size'', DInt (int (length pred_results))),
                   (''normalized_match'', DBool results_match)]
            in if \<not> results_match then
                 (let missing_rows = elements (counter_sub gt_counter pred_counter);
                      extra_rows = elements (counter_sub pred_counter gt_counter);
                      intersection_size = counter_total (counter_and gt_counter pred_counter);
                      union_size = counter_total (counter_or gt_counter pred_counter);
                      overlap_ratio = (if union_size > 0 then real intersection_size / real union_size else 0)
                  in (results_match,
                      dict_update
                        (dict_update comparison_details
                           [(''missing_rows_count'', DInt (int (length missing_rows))),
                            (''extra_rows_count'', DInt (int (length extra_rows))),
                            (''missing_rows_sample'', rows_detail (take 5 missing_rows)),
                            (''extra_rows_sample'', rows_detail (take 5 extra_rows))])
                        [(''overlap_ratio'', DNum overlap_ratio)]))
               else (results_match, comparison_details)))"


text \<open>
  \<open>_evaluate_execution\<close>, with the statements handed to the database during the
  evaluation.
\<close>

definition rows_len :: "row list option \<Rightarrow> int" where
  "rows_len res = (case res of None \<Rightarrow> 0 | Some rs \<Rightarrow> int (length rs))"

definition truthy :: "string option \<Rightarrow> bool" where
  "truthy e = (e \<noteq> None \<and> e \<noteq> Some [])"

definition evaluate_execution_traced ::
  "int \<Rightarrow> EvaluationContext \<Rightarrow> (string + MetricResult) \<times> string list" where
  "evaluate_execution_traced execution_timeout ctx =
     (if not_str (ground_truth_sql ctx) \<or> not_str (predicted_sql ctx) then
        (Inr (create_result EX_name 0 False
                [(''reason'', DStr ''Empty or missing SQL query''),
                 (''ground_truth_executed'', DBool False),
                 (''predicted_executed'', DBool False)] None), [])
      else case database_connection ctx of
        None \<Rightarrow>
          (Inr (create_result EX_name 0 False
                  [(''reason'', DStr ''No database connection provided'')]
                  (Some ''Database connection required for execution accuracy'')), [])
      | Some conn \<Rightarrow>
          (let ((gt_result, gt_error), tr1) =
                 execute_query execution_timeout (str_of (ground_truth_sql ctx)) conn;
               ((pred_result, pred_error), tr2) =
                 execute_query execution_timeout (str_of (predicted_sql ctx)) conn
           in if truthy gt_error then
                (Inr (create_result EX_name 0 False
                        [(''reason'', DStr ''Ground truth query execution failed''),
                         (''ground_truth_error'', DStr (str_of gt_error)),
                         (''predicted_executed'', DBool (pred_error = None))]
                        (Some (''Ground truth query failed: '' @ str_of gt_error))), tr1 @ tr2)
              else if truthy pred_error then
                (Inr (create_result EX_name 0 False
                        [(''reason'', DStr ''Predicted query execution failed''),
                         (''predicted_error'', DStr (str_of pred_error)),
                         (''ground_truth_executed'', DBool True),
                         (''ground_truth_rows'', DInt (rows_len gt_result))]
                        (Some (''Predicted query failed: '' @ str_of pred_error))), tr1 @ tr2)
              else
                (let (results_match, comparison_details) = compare_results gt_result pred_result
                 in (Inr (create_result EX_name (if results_match then 1 else 0) results_match
                            [(''ground_truth_executed'', DBool True),
                             (''predicted_executed'', DBool True),
                             (''ground_truth_rows'', DInt (rows_len gt_result)),
                             (''predicted_rows'', DInt (rows_len pred_result)),
                             (''results_match'', DBool results_match),
                             (''comparison_details'', DDict comparison_details)] None), tr1 @ tr2))))"

definition evaluate_execution :: "int \<Rightarrow> EvaluationContext \<Rightarrow> string + MetricResult" where
  "evaluate_execution execution_timeout ctx = fst (evaluate_execution_traced execution_timeout ctx)"

definition EX_evaluate :: "int \<Rightarrow> EvaluationContext \<Rightarrow> string + MetricResult" where
  "EX_evaluate execution_timeout ctx = safe_evaluate EX_name ctx (evaluate_execution execution_timeout)"

section \<open>Clause extractor (evaluation/metrics/improved\_sql\_parser.py)\<close>

text \<open>
  A clause set is the dictionary of \<open>_empty_components\<close>, in its insertion order.
\<close>

type_synonym components = "(string \<times> string) list"

definition empty_components :: components where
  "empty_components =
     [(''select'', []), (''from'', []), (''where'', []), (''group_by'', []),
      (''having'', []), (''order_by'', []), (''limit'', []), (''joins'', [])]"

text \<open>\<open>components.get(key, '')\<close>\<close>

definition comp_get :: "components \<Rightarrow> string \<Rightarrow> string" where
  "comp_get comps key = (case map_of comps key of None \<Rightarrow> [] | Some v \<Rightarrow> v)"

text \<open>\<open>parsed.flatten()\<close>: the leaves of the token tree, from left to right.\<close>

fun flatten :: "token \<Rightarrow> (ttype \<times> string) list"
  and flatten_list :: "token list \<Rightarrow> (ttype \<times> string) list" where
  "flatten (Token ty v) = [(ty, v)]"
| "flatten (TokenList ts) = flatten_list ts"
| "flatten_list [] = []"
| "flatten_list (t # ts) = flatten t @ flatten_list ts"

text \<open>
  The loop of \<open>_advanced_component_extraction\<close>. Its state is \<open>current_component\<close>,
  \<open>paren_depth\<close> and \<open>components\<close>.
\<close>

definition keyword_component :: "string \<Rightarrow> string option \<Rightarrow> string option" where
  "keyword_component token_upper current_component =
     (if token_upper = ''SELECT'' then Some ''select''
      else if token_upper = ''FROM'' then Some ''from''
      else if token_upper = ''WHERE'' then Some ''where''
      else if token_upper \<in> set [''GROUP'', ''GROUP BY''] then Some ''group_by''
      else if token_upper = ''HAVING'' then Some ''having''
      else if token_upper \<in> set [''ORDER'', ''ORDER BY''] then Some ''order_by''
      else if token_upper = ''LIMIT'' then Some ''limit''
      else if token_upper \<in> set [''JOIN'', ''INNER'', ''LEFT'', ''RIGHT'', ''FULL'', ''CROSS''] then Some ''joins''
      else current_component)"

fun extraction_loop ::
  "(ttype \<times> string) list \<Rightarrow> string option \<Rightarrow> int \<Rightarrow> components \<Rightarrow> components" where
  "extraction_loop [] current_component paren_depth comps = comps"
| "extraction_loop ((ty, v) # ts) current_component paren_depth comps =
     (if ttype_in ty Whitespace then extraction_loop ts current_component paren_depth comps
      else
        (let paren_depth = (if v = ''('' then paren_depth + 1
                            else if v = '')'' then paren_depth - 1 else paren_depth)
         in if paren_depth = 0 \<and> ttype_in ty Keyword then
              extraction_loop ts (keyword_component (upper v) current_component) paren_depth comps
            else
              (case current_component of
                 None \<Rightarrow> extraction_loop ts current_component paren_depth comps
               | Some cur \<Rightarrow>
                   (case map_of comps cur of
                      None \<Rightarrow> extraction_loop ts current_component paren_depth comps
                    | Some old \<Rightarrow>
                        extraction_loop ts current_component paren_depth
                          (AList.update cur (if old \<noteq> [] then old @ '' '' @ v else v) comps)))))"

definition advanced_component_extraction :: "token list \<Rightarrow> components" where
  "advanced_component_extraction ts =
     map (\<lambda>(k, v). (k, strip v)) (extraction_loop (flatten_list ts) None 0 empty_components)"

text \<open>
  \<open>_regex_component_extraction\<close>. All patterns are searched under \<open>re.IGNORECASE\<close>;
  \<open>ws1\<close> is \<open>\s+\<close> and \<open>any_lazy\<close> is the group \<open>(.*?)\<close> under \<open>re.DOTALL\<close>.
\<close>

definition ws1 :: rx where
  "ws1 = Plus True ws"

definition any_lazy :: rx where
  "any_lazy = Grp 1 (Rep False dot_all)"

definition two_words :: "string \<Rightarrow> string \<Rightarrow> rx" where
  "two_words a b = seqs [lit_i a, ws1, lit_i b]"

definition rx_select :: rx where
  "rx_select = seqs [WordB, lit_i ''SELECT'', ws1, any_lazy, ws1, lit_i ''FROM'', WordB]"

definition rx_from :: rx where
  "rx_from = seqs [WordB, lit_i ''FROM'', ws1, any_lazy,
     Alt (Seq ws1 (lit_i ''WHERE''))
       (Alt (Seq ws1 (two_words ''GROUP'' ''BY''))
         (Alt (Seq ws1 (two_words ''ORDER'' ''BY''))
           (Alt (Seq ws1 (lit_i ''LIMIT'')) (Eol False))))]"

definition rx_where :: rx where
  "rx_where = seqs [WordB, lit_i ''WHERE'', ws1, any_lazy,
     Alt (Seq ws1 (two_words ''GROUP'' ''BY''))
       (Alt (Seq ws1 (two_words ''ORDER'' ''BY''))
         (Alt (Seq ws1 (lit_i ''LIMIT'')) (Eol False)))]"

definition rx_group :: rx where
  "rx_group = seqs [WordB, two_words ''GROUP'' ''BY'', ws1, any_lazy,
     Alt (Seq ws1 (lit_i ''HAVING''))
       (Alt (Seq ws1 (two_words ''ORDER'' ''BY''))
         (Alt (Seq ws1 (lit_i ''LIMIT'')) (Eol False)))]"

definition rx_having :: rx where
  "rx_having = seqs [WordB, lit_i ''HAVING'', ws1, any_lazy,
     Alt (Seq ws1 (two_words ''ORDER'' ''BY''))
       (Alt (Seq ws1 (lit_i ''LIMIT'')) (Eol False))]"

definition rx_order :: rx where
  "rx_order = seqs [WordB, two_words ''ORDER'' ''BY'', ws1, any_lazy,
     Alt (Seq ws1 (lit_i ''LIMIT'')) (Eol False)]"

definition rx_limit :: rx where
  "rx_limit = seqs [WordB, lit_i ''LIMIT'', ws1, Grp 1 (Plus True (Sym is_digit))]"

text \<open>One \<open>re.search\<close> and the assignment of its group 1, stripped, when it matched.\<close>

definition set_from_search :: "rx \<Rightarrow> string \<Rightarrow> string \<Rightarrow> components \<Rightarrow> components" where
  "set_from_search r query key comps =
     (case search r None query of
        None \<Rightarrow> comps
      | Some (b, mt, a, c) \<Rightarrow> AList.update key (strip (str_of (group c 1))) comps)"

definition regex_component_extraction :: "string \<Rightarrow> components" where
  "regex_component_extraction sql_query =
     (let query = re_sub rx_spaces '' '' (strip sql_query);
          query = rstrip_chars '';'' query;
          comps = set_from_search rx_select query ''select'' empty_components;
          comps = set_from_search rx_from query ''from'' comps;
          comps = set_from_search rx_where query ''where'' comps;
          comps = set_from_search rx_group query ''group_by'' comps;
          comps = set_from_search rx_having query ''having'' comps;
          comps = set_from_search rx_order query ''order_by'' comps
      in set_from_search rx_limit query ''limit'' comps)"

definition extract_components :: "parser \<Rightarrow> string \<Rightarrow> components" where
  "extract_components parse sql_query =
     (if sql_query = [] \<or> strip sql_query = [] then empty_components
      else case parse sql_query of
             Inl e \<Rightarrow> regex_component_extraction sql_query
           | Inr ts \<Rightarrow>
               (let comps = advanced_component_extraction ts
                in if comp_get comps ''select'' \<noteq> [] \<or> comp_get comps ''from'' \<noteq> []
                      \<or> comp_get comps ''where'' \<noteq> []
                   then comps else regex_component_extraction sql_query))"

section \<open>Projection comparison (\<open>ImprovedColumnComparator\<close>)\<close>

text \<open>\<open>_normalize_expression\<close>: the pattern is \<open>\b(count|sum|avg|min|max|extract)\b\<close>.\<close>

definition rx_function_name :: rx where
  "rx_function_name =
     seqs [WordB,
           Grp 1 (Alt (lit_i ''count'') (Alt (lit_i ''sum'') (Alt (lit_i ''avg'')
                    (Alt (lit_i ''min'') (Alt (lit_i ''max'') (lit_i ''extract'')))))),
           WordB]"

definition normalize_expression :: "string \<Rightarrow> string" where
  "normalize_expression expression =
     (let expr = strip expression;
          expr = sub rx_function_name (\<lambda>mt c. upper (str_of (group c 1))) None expr
      in re_sub rx_spaces '' '' expr)"

text \<open>\<open>_create_normalized_expression\<close>\<close>

definition alias_marker :: string where
  "alias_marker = '' AS <alias>''"

definition create_normalized_expression :: "string \<Rightarrow> string \<Rightarrow> string" where
  "create_normalized_expression expression alias = normalize_expression expression @ alias_marker"

text \<open>
  \<open>_normalize_select_item\<close>: the patterns are \<open>^(.+?)\s+AS\s+(.+)$\<close> under
  \<open>re.IGNORECASE\<close>, \<open>^[a-zA-Z_][a-zA-Z0-9_]*$\<close> and \<open>.+\([^)]*\)$\<close>.
\<close>

definition rx_as_alias :: rx where
  "rx_as_alias = seqs [Bol False, Grp 1 (Plus False dot), ws1, lit_i ''AS'', ws1,
                       Grp 2 (Plus True dot), Eol False]"

definition rx_identifier :: rx where
  "rx_identifier =
     seqs [Bol False, Sym (\<lambda>c. is_upper_letter c \<or> is_lower_letter c \<or> c = CHR ''_''),
           Rep True (Sym is_word), Eol False]"

definition rx_function_call :: rx where
  "rx_function_call =
     seqs [Plus True dot, chr (CHR ''(''), Rep True (Sym (\<lambda>c. c \<noteq> CHR '')'')), chr (CHR '')''), Eol False]"

definition not_alias_words :: "string list" where
  "not_alias_words =
     [''FROM'', ''WHERE'', ''GROUP'', ''ORDER'', ''HAVING'', ''LIMIT'', ''AND'', ''OR'', ''NOT'',
      ''IN'', ''EXISTS'', ''LIKE'', ''BETWEEN'', ''IS'', ''NULL'', ''TRUE'', ''FALSE'',
      ''ASC'', ''DESC'', ''DISTINCT'', ''ALL'', ''ANY'', ''SOME'']"

definition normalize_select_item :: "string \<Rightarrow> string" where
  "normalize_select_item item0 =
     (let item = strip item0
      in case rx_match rx_as_alias item of
           Some c \<Rightarrow>
             create_normalized_expression (strip (str_of (group c 1))) (strip (str_of (group c 2)))
         | None \<Rightarrow>
             (let words = split_ws item
              in if length words \<ge> 2
                    \<and> rx_match rx_identifier (last words) \<noteq> None
                    \<and> upper (last words) \<notin> set not_alias_words
                    \<and> rx_match rx_function_call (last words) = None
                 then create_normalized_expression (join '' '' (butlast words)) (last words)
                 else normalize_expression item))"

text \<open>\<open>extract_select_items\<close>: the pattern is \<open>^\s*SELECT\s+\<close>.\<close>

definition rx_leading :: "string \<Rightarrow> rx" where
  "rx_leading kw = seqs [Bol False, Rep True ws, lit_i kw, ws1]"

definition extract_select_items :: "string \<Rightarrow> string list" where
  "extract_select_items select_clause =
     (if strip select_clause = [] then []
      else map normalize_select_item
             (filter (\<lambda>item. item \<noteq> [])
                (map strip (split_on (CHR '','') (re_sub (rx_leading ''SELECT'') [] (strip select_clause))))))"

text \<open>\<open>_compare_individual_items\<close>\<close>

definition compare_individual_items :: "string \<Rightarrow> string \<Rightarrow> real" where
  "compare_individual_items gt_item pred_item =
     (if gt_item = pred_item then 1
      else
        (let gt_has_alias = contains alias_marker gt_item;
             pred_has_alias = contains alias_marker pred_item
         in if gt_has_alias \<and> pred_has_alias then
              (if replace alias_marker [] gt_item = replace alias_marker [] pred_item then 1 else 0)
            else if gt_has_alias \<and> \<not> pred_has_alias then
              (if replace alias_marker [] gt_item = pred_item then 7 / 10 else 0)
            else if \<not> gt_has_alias \<and> pred_has_alias then
              (if gt_item = replace alias_marker [] pred_item then 7 / 10 else 0)
            else (if gt_item = pred_item then 1 else 0)))"

text \<open>
  \<open>_calculate_flexible_similarity\<close>: \<open>best_match\<close> is the inner loop, \<open>jaccard\<close> the
  quotient of the sizes of the intersection and the union of two sets.
\<close>

definition jaccard :: "'a list \<Rightarrow> 'a list \<Rightarrow> real" where
  "jaccard xs ys =
     (let intersection = card (set xs \<inter> set ys); union = card (set xs \<union> set ys)
      in if union > 0 then real intersection / real union else 0)"

definition best_match :: "string \<Rightarrow> string list \<Rightarrow> real" where
  "best_match gt_item pred_normalized =
     foldl (\<lambda>best pred_item. max best (compare_individual_items gt_item pred_item)) 0 pred_normalized"

definition calculate_flexible_similarity :: "string list \<Rightarrow> string list \<Rightarrow> real" where
  "calculate_flexible_similarity gt_normalized pred_normalized =
     (if length gt_normalized \<noteq> length pred_normalized then jaccard gt_normalized pred_normalized
      else
        (let total_similarity =
               foldl (\<lambda>total gt_item. total + best_match gt_item pred_normalized) 0 gt_normalized
         in if gt_normalized \<noteq> [] then total_similarity / real (length gt_normalized) else 0))"

text \<open>\<open>compare_select_items\<close>: the similarity and the dictionary returned.\<close>

definition select_details :: "real \<Rightarrow> bool \<Rightarrow> string list \<Rightarrow> string list \<Rightarrow> string list \<Rightarrow> string list \<Rightarrow> pydict" where
  "select_details j exact gt_items pred_items gt_normalized pred_normalized =
     [(''jaccard_similarity'', DNum j),
      (''gt_items'', DList (map DStr gt_items)),
      (''pred_items'', DList (map DStr pred_items)),
      (''gt_normalized'', DList (map DStr gt_normalized)),
      (''pred_normalized'', DList (map DStr pred_normalized)),
      (''exact_match'', DBool exact)]"

definition compare_select_items :: "string list \<Rightarrow> string list \<Rightarrow> real \<times> pydict" where
  "compare_select_items gt_items pred_items =
     (let gt_normalized = map normalize_select_item gt_items;
          pred_normalized = map normalize_select_item pred_items
      in if gt_normalized = [] \<and> pred_normalized = [] then
           (1, select_details 1 True gt_items pred_items gt_normalized pred_normalized)
         else if gt_normalized = [] \<or> pred_normalized = [] then
           (0, select_details 0 False gt_items pred_items gt_normalized pred_normalized)
         else
           (let j = calculate_flexible_similarity gt_normalized pred_normalized
            in (j, select_details j (j = 1) gt_items pred_items gt_normalized pred_normalized)))"

section \<open>Component Matching (evaluation/metrics/component\_matching.py)\<close>

definition CM_name :: string where
  "CM_name = ''Component Matching (CM)''"

definition clause_weights :: "(string \<times> real) list" where
  "clause_weights =
     [(''select'', 25 / 100), (''from'', 20 / 100), (''where'', 20 / 100), (''joins'', 15 / 100),
      (''group_by'', 10 / 100), (''order_by'', 5 / 100), (''having'', 3 / 100), (''limit'', 2 / 100)]"

text \<open>\<open>_evaluate_select_clause\<close>\<close>

definition evaluate_select_clause :: "string \<Rightarrow> string \<Rightarrow> real \<times> pydict" where
  "evaluate_select_clause gt_select pred_select =
     (if strip gt_select = [] \<and> strip pred_select = [] then (1, [(''match'', DStr ''both_empty'')])
      else if strip gt_select = [] \<or> strip pred_select = [] then
        (0, [(''match'', DStr ''one_empty''), (''gt_select'', DStr gt_select), (''pred_select'', DStr pred_select)])
      else compare_select_items (extract_select_items gt_select) (extract_select_items pred_select))"

text \<open>
  \<open>_extract_table_names\<close>: the patterns are \<open>^\s*FROM\s+\<close> and \<open>\s+(AS\s+)?\w+\s*$\<close>,
  the stripped characters are the three quotes.
\<close>

definition rx_table_alias :: rx where
  "rx_table_alias =
     seqs [ws1, Opt (Grp 1 (Seq (lit_i ''AS'') ws1)), Plus True (Sym is_word), Rep True ws, Eol False]"

definition table_name :: "string \<Rightarrow> string" where
  "table_name t = strip_chars [CHR 0x22, CHR 0x27, CHR 0x60] (strip (re_sub rx_table_alias [] t))"

definition extract_table_names :: "string \<Rightarrow> string list" where
  "extract_table_names from_clause =
     (if strip from_clause = [] then []
      else map table_name
             (filter (\<lambda>t. t \<noteq> [])
                (map strip (split_on (CHR '','') (re_sub (rx_leading ''FROM'') [] (strip from_clause))))))"

text \<open>
  The comparison of two name lists as sets, shared by \<open>_evaluate_from_clause\<close> and
  \<open>_evaluate_where_clause\<close>, which differ in the key names of the details.
\<close>

definition evaluate_sets :: "string \<Rightarrow> string \<Rightarrow> string list \<Rightarrow> string list \<Rightarrow> real \<times> pydict" where
  "evaluate_sets gt_key pred_key gt pred =
     (if set gt = {} \<and> set pred = {} then (1, [(''match'', DStr ''both_empty_after_parsing'')])
      else if set gt = {} \<or> set pred = {} then (0, [(''match'', DStr ''one_empty_after_parsing'')])
      else
        (let intersection = card (set gt \<inter> set pred);
             union = card (set gt \<union> set pred);
             sc = (if union > 0 then real intersection / real union else 0)
         in (sc, [(gt_key, DList (map DStr gt)), (pred_key, DList (map DStr pred)),
                  (''intersection_count'', DInt (int intersection)),
                  (''union_count'', DInt (int union)),
                  (''jaccard_similarity'', DNum sc)])))"

definition evaluate_from_clause :: "string \<Rightarrow> string \<Rightarrow> real \<times> pydict" where
  "evaluate_from_clause gt_from pred_from =
     (if strip gt_from = [] \<and> strip pred_from = [] then (1, [(''match'', DStr ''both_empty'')])
      else if strip gt_from = [] \<or> strip pred_from = [] then (0, [(''match'', DStr ''one_empty'')])
      else evaluate_sets ''gt_tables'' ''pred_tables''
             (extract_table_names gt_from) (extract_table_names pred_from))"

text \<open>
  \<open>_extract_conditions\<close>: the patterns are \<open>^\s*WHERE\s+\<close> and \<open>\s+(AND|OR)\s+\<close>.
\<close>

definition rx_and_or :: rx where
  "rx_and_or = seqs [ws1, Grp 1 (Alt (lit_i ''AND'') (lit_i ''OR'')), ws1]"

definition extract_conditions :: "parser \<Rightarrow> string \<Rightarrow> string list" where
  "extract_conditions parse where_clause =
     (if strip where_clause = [] then []
      else
        (let clause = re_sub (rx_leading ''WHERE'') [] (strip where_clause);
             parts = map str_of (split_rx rx_and_or [1] None [] clause)
         in filter (\<lambda>normalized. normalized \<noteq> [])
              (map (\<lambda>part. normalize_sql parse (strip part))
                 (filter (\<lambda>part. upper part \<notin> set [''AND'', ''OR'']) parts))))"

definition evaluate_where_clause :: "parser \<Rightarrow> string \<Rightarrow> string \<Rightarrow> real \<times> pydict" where
  "evaluate_where_clause parse gt_where pred_where =
     (if strip gt_where = [] \<and> strip pred_where = [] then (1, [(''match'', DStr ''both_empty'')])
      else if strip gt_where = [] \<or> strip pred_where = [] then (0, [(''match'', DStr ''one_empty'')])
      else evaluate_sets ''gt_conditions'' ''pred_conditions''
             (extract_conditions parse gt_where) (extract_conditions parse pred_where))"

text \<open>\<open>_evaluate_generic_clause\<close>, \<open>_evaluate_joins_clause\<close> and \<open>_evaluate_limit_clause\<close>\<close>

definition evaluate_generic_clause :: "parser \<Rightarrow> string \<Rightarrow> string \<Rightarrow> real \<times> pydict" where
  "evaluate_generic_clause parse gt_clause pred_clause =
     (if strip gt_clause = [] \<and> strip pred_clause = [] then (1, [(''match'', DStr ''both_empty'')])
      else if strip gt_clause = [] \<or> strip pred_clause = [] then (0, [(''match'', DStr ''one_empty'')])
      else
        (let gt_normalized = normalize_sql parse gt_clause;
             pred_normalized = normalize_sql parse pred_clause;
             sc = (if gt_normalized = pred_normalized then 1 else 0 :: real)
         in (sc, [(''gt_normalized'', DStr gt_normalized),
                  (''pred_normalized'', DStr pred_normalized),
                  (''exact_match'', DBool (sc = 1))])))"

definition evaluate_joins_clause :: "parser \<Rightarrow> string \<Rightarrow> string \<Rightarrow> real \<times> pydict" where
  "evaluate_joins_clause parse gt_joins pred_joins = evaluate_generic_clause parse gt_joins pred_joins"

definition evaluate_limit_clause :: "string \<Rightarrow> string \<Rightarrow> real \<times> pydict" where
  "evaluate_limit_clause gt_limit pred_limit =
     (if strip gt_limit = [] \<and> strip pred_limit = [] then (1, [(''match'', DStr ''both_empty'')])
      else if strip gt_limit = [] \<or> strip pred_limit = [] then (0, [(''match'', DStr ''one_empty'')])
      else
        (let gt_numbers = findall (Plus True (Sym is_digit)) None gt_limit;
             pred_numbers = findall (Plus True (Sym is_digit)) None pred_limit;
             sc = (if gt_numbers = pred_numbers then 1 else 0 :: real)
         in (sc, [(''gt_numbers'', DList (map DStr gt_numbers)),
                  (''pred_numbers'', DList (map DStr pred_numbers)),
                  (''match'', DBool (sc = 1))])))"

text \<open>\<open>_evaluate_component\<close>\<close>

definition evaluate_component :: "parser \<Rightarrow> string \<Rightarrow> string \<Rightarrow> string \<Rightarrow> real \<times> pydict" where
  "evaluate_component parse component_name gt_component pred_component =
     (if component_name = ''select'' then evaluate_select_clause gt_component pred_component
      else if component_name = ''from'' then evaluate_from_clause gt_component pred_component
      else if component_name = ''where'' then evaluate_where_clause parse gt_component pred_component
      else if component_name = ''joins'' then evaluate_joins_clause parse gt_component pred_component
      else if component_name \<in> set [''group_by'', ''order_by'', ''having'']
        then evaluate_generic_clause parse gt_component pred_component
      else if component_name = ''limit'' then evaluate_limit_clause gt_component pred_component
      else evaluate_generic_clause parse gt_component pred_component)"

text \<open>
  \<open>_evaluate_components\<close>. \<open>component_score\<close> is the entry of \<open>component_scores\<close> for
  one clause kind.
\<close>

definition component_score :: "parser \<Rightarrow> components \<Rightarrow> components \<Rightarrow> string \<Rightarrow> real" where
  "component_score parse gt_components pred_components component_name =
     fst (evaluate_component parse component_name
            (comp_get gt_components component_name) (comp_get pred_components component_name))"

definition component_detail :: "parser \<Rightarrow> components \<Rightarrow> components \<Rightarrow> string \<Rightarrow> pydict" where
  "component_detail parse gt_components pred_components component_name =
     snd (evaluate_component parse component_name
            (comp_get gt_components component_name) (comp_get pred_components component_name))"

definition components_detail :: "components \<Rightarrow> detail" where
  "components_detail comps = DDict (map (\<lambda>(k, v). (k, DStr v)) comps)"

definition evaluate_components :: "parser \<Rightarrow> EvaluationContext \<Rightarrow> string + MetricResult" where
  "evaluate_components parse ctx =
     (if not_str (ground_truth_sql ctx) \<or> not_str (predicted_sql ctx) then
        Inr (create_result CM_name 0 False
               [(''reason'', DStr ''Empty or missing SQL query''), (''component_scores'', DDict [])] None)
      else
        (let gt_components = extract_components parse (str_of (ground_truth_sql ctx));
             pred_components = extract_components parse (str_of (predicted_sql ctx));
             names = map fst clause_weights;
             overall_score =
               sum_list (map (\<lambda>(comp, weight).
                                component_score parse gt_components pred_components comp * weight)
                           clause_weights);
             is_corr = (overall_score \<ge> 8 / 10)
         in Inr (create_result CM_name overall_score is_corr
                   [(''overall_score'', DNum overall_score),
                    (''component_scores'',
                       DDict (map (\<lambda>n. (n, DNum (component_score parse gt_components pred_components n))) names)),
                    (''component_details'',
                       DDict (map (\<lambda>n. (n, DDict (component_detail parse gt_components pred_components n))) names)),
                    (''ground_truth_components'', components_detail gt_components),
                    (''predicted_components'', components_detail pred_components),
                    (''clause_weights'', DDict (map (\<lambda>(n, w). (n, DNum w)) clause_weights))]
                   None)))"

definition CM_evaluate :: "parser \<Rightarrow> EvaluationContext \<Rightarrow> string + MetricResult" where
  "CM_evaluate parse ctx = safe_evaluate CM_name ctx (evaluate_components parse)"

section \<open>Aggregation (\<open>aggregate_results\<close> in evaluation/dag/tasks.py)\<close>
















section \<open>Example inputs\<close>

text \<open>
  Two contexts for the same pair of statements that differ in the question only, a
  context whose prediction is empty, and a parser that always raises (so that the
  fallback normalization is used).
\<close>

definition no_parse :: parser where
  "no_parse sql = Inl ''no parse''"

definition count_context :: EvaluationContext where
  "count_context =
     \<lparr>question_id = ''q1'', question = ''How many deaths?'',
      ground_truth_sql = Some ''SELECT COUNT(*) FROM mortes'',
      predicted_sql = Some ''select count(*) from mortes'',
      database_connection = None, tables_info = None\<rparr>"

definition renamed_context :: EvaluationContext where
  "renamed_context = count_context\<lparr>question_id := ''q2'', question := ''Number of deaths''\<rparr>"

definition empty_prediction :: EvaluationContext where
  "empty_prediction = count_context\<lparr>predicted_sql := Some []\<rparr>"







text \<open>
  The statement \<open>SELECT 1 ;\<close> and what is left of it without the semicolon, with their
  token lists: a statement keyword, a number, white space and the semicolon. The parser
  \<open>select_one_parse\<close> knows these two statements.
\<close>

definition select_one_tokens :: "token list" where
  "select_one_tokens =
     [Token [''Keyword'', ''DML''] ''SELECT'', Token Whitespace '' '', Token Number_Integer ''1'',
      Token Whitespace '' '', Token Punctuation '';'']"

definition select_one_space_tokens :: "token list" where
  "select_one_space_tokens =
     [Token [''Keyword'', ''DML''] ''SELECT'', Token Whitespace '' '', Token Number_Integer ''1'',
      Token Whitespace '' '']"

definition select_one_parse :: parser where
  "select_one_parse sql =
     (if sql = ''SELECT 1 ;'' then Inr select_one_tokens
      else if sql = ''SELECT 1 '' then Inr select_one_space_tokens
      else Inl ''unknown statement'')"

section \<open>Scheduler: results\<close>

lemma two_tasks_built_by_add_task:
  "add_task [] ''load'' failing_load [] None = Inr [hd two_tasks] \<and>
   add_task [hd two_tasks] ''report'' report_task [''load''] None = Inr two_tasks"
  by (simp add: add_task_def two_tasks_def)

lemma run_task_invokes: "invoked (run_task init td st) = invoked st @ [name td]"
  by (simp add: run_task_def Let_def split: prod.splits sum.splits)

lemma run_task_result_of_func:
  "results (run_task init td st) (name td) =
     Some (case func td (snd (collect_inputs (name td) (depends_on td) (results st) init)) of
             Inr d \<Rightarrow> \<lparr>task_name = name td, success = True, data = d, error = None\<rparr>
           | Inl e \<Rightarrow> \<lparr>task_name = name td, success = False, data = None, error = Some e\<rparr>)"
  by (simp add: run_task_def Let_def split: prod.splits sum.splits)

text \<open>
  C1. The claim: a task with a failed dependency is recorded as failed with a
  dependency-failure error and its function is not called. On the code, in the run of
  the two-task pipeline \<open>load\<close> fails, and \<open>report\<close>, which depends on it, is called
  all the same and recorded as a success with its own value: the \<open>continue\<close> of the
  dependency-failure branch belongs to the inner loop over the dependencies, so the
  dependency-failure result is overwritten by the call that follows.
\<close>

theorem execute_calls_task_with_failed_dependency:
  "\<exists>st. execute insertion_order two_tasks Map.empty = Inr st \<and>
        results st ''load'' = Some \<lparr>task_name = ''load'', success = False, data = None, error = Some ''boom''\<rparr> \<and>
        results st ''report'' = Some \<lparr>task_name = ''report'', success = True, data = Some 7, error = None\<rparr> \<and>
        invoked st = [''load'', ''report'']"
  by (simp add: execute_def insertion_order_def graph_of_def two_tasks_def run_task_def
      failing_load_def report_task_def Let_def)

section \<open>Metrics: results\<close>

lemma safe_evaluate_Inr: "\<exists>r. safe_evaluate nm ctx f = Inr r"
  by (simp add: safe_evaluate_def split: sum.splits)

lemma EM_evaluate_eq: "EM_evaluate parse ctx = evaluate_exact_match parse ctx"
  by (simp add: EM_evaluate_def safe_evaluate_def evaluate_exact_match_def Let_def)

text \<open>
  C2. Exact Match returns a result for every context, never an exception. Its score is
  1 exactly when both statements are present and not empty and their normalizations are
  the same text, and 0 otherwise, so it is 0 when a statement is missing or empty;
  \<open>is_correct\<close> is the truth value of \<open>score = 1\<close>.
\<close>

theorem exact_match_score:
  "\<exists>r. EM_evaluate parse ctx = Inr r
     \<and> (score r = 1) =
         (\<not> not_str (ground_truth_sql ctx) \<and> \<not> not_str (predicted_sql ctx)
          \<and> normalize_sql parse (str_of (ground_truth_sql ctx))
              = normalize_sql parse (str_of (predicted_sql ctx)))
     \<and> (score r = 1 \<or> score r = 0)
     \<and> (not_str (ground_truth_sql ctx) \<or> not_str (predicted_sql ctx) \<longrightarrow> score r = 0)
     \<and> is_correct r = (score r = 1)"
  by (simp add: EM_evaluate_eq evaluate_exact_match_def create_result_def Let_def)

theorem exact_match_score_witness:
  "\<exists>r. EM_evaluate no_parse empty_prediction = Inr r \<and> score r = 0 \<and> \<not> is_correct r"
  using exact_match_score [of no_parse empty_prediction]
  by (auto simp: empty_prediction_def count_context_def not_str_def)

text \<open>
  C7. \<open>_safe_evaluate\<close> returns a result whatever the inner evaluation function does:
  when that function raises an exception with message \<open>e\<close>, the result has score 0, is
  not correct, and carries \<open>e\<close> in its error message and details. The \<open>evaluate\<close> of
  each of the three metrics is \<open>_safe_evaluate\<close> around its inner function, and
  returns a result for every context.
\<close>

theorem safe_evaluate_never_raises:
  "(\<exists>r. safe_evaluate nm ctx f = Inr r
      \<and> (\<forall>e. f ctx = Inl e \<longrightarrow>
            score r = 0 \<and> \<not> is_correct r
            \<and> error_message r = Some (''Error in '' @ nm @ '': '' @ e)
            \<and> details r = [(''error'', DStr e)]))
   \<and> EM_evaluate parse ctx = safe_evaluate EM_name ctx (evaluate_exact_match parse)
   \<and> CM_evaluate parse ctx = safe_evaluate CM_name ctx (evaluate_components parse)
   \<and> EX_evaluate timeout ctx = safe_evaluate EX_name ctx (evaluate_execution timeout)
   \<and> (\<exists>r. EM_evaluate parse ctx = Inr r)
   \<and> (\<exists>r. CM_evaluate parse ctx = Inr r)
   \<and> (\<exists>r. EX_evaluate timeout ctx = Inr r)"
proof -
  have "\<exists>r. safe_evaluate nm ctx f = Inr r
      \<and> (\<forall>e. f ctx = Inl e \<longrightarrow>
            score r = 0 \<and> \<not> is_correct r
            \<and> error_message r = Some (''Error in '' @ nm @ '': '' @ e)
            \<and> details r = [(''error'', DStr e)])"
    by (cases "f ctx") (simp_all add: safe_evaluate_def create_result_def)
  then show ?thesis
    by (simp add: EM_evaluate_def CM_evaluate_def EX_evaluate_def safe_evaluate_Inr)
qed

theorem safe_evaluate_never_raises_witness:
  "\<exists>r. safe_evaluate EM_name count_context (\<lambda>c. Inl ''boom'') = Inr r
     \<and> score r = 0 \<and> \<not> is_correct r
     \<and> error_message r = Some ''Error in Exact Match (EM): boom''"
  using safe_evaluate_never_raises [of EM_name count_context "\<lambda>c. Inl ''boom''" no_parse 30]
  by (auto simp: EM_name_def)

text \<open>
  C10. With two non-empty statements and no database connection, Execution Accuracy
  returns the result with score 0, not correct, and the error message that a database
  connection is required; no statement is handed to a database.
\<close>

theorem execution_without_connection:
  assumes "\<not> not_str (ground_truth_sql ctx)" and "\<not> not_str (predicted_sql ctx)"
    and "database_connection ctx = None"
  shows "EX_evaluate timeout ctx =
           Inr \<lparr>metric_name = EX_name, score = 0, is_correct = False,
                details = [(''reason'', DStr ''No database connection provided'')],
                error_message = Some ''Database connection required for execution accuracy''\<rparr>
         \<and> snd (evaluate_execution_traced timeout ctx) = []"
  using assms
  by (simp add: EX_evaluate_def safe_evaluate_def evaluate_execution_def
      evaluate_execution_traced_def create_result_def)

theorem execution_without_connection_witness:
  "EX_evaluate 30 count_context =
           Inr \<lparr>metric_name = EX_name, score = 0, is_correct = False,
                details = [(''reason'', DStr ''No database connection provided'')],
                error_message = Some ''Database connection required for execution accuracy''\<rparr>
   \<and> snd (evaluate_execution_traced 30 count_context) = []"
  using execution_without_connection [of count_context 30]
  by (simp add: count_context_def not_str_def)

text \<open>
  C9. Two contexts with the same reference statement, predicted statement and database
  connection get the same score and the same \<open>is_correct\<close> from each of the three
  metrics, whatever their question identifiers and question texts are.
\<close>

lemma EM_evaluate_cong:
  assumes "ground_truth_sql c1 = ground_truth_sql c2" and "predicted_sql c1 = predicted_sql c2"
  shows "EM_evaluate parse c1 = EM_evaluate parse c2"
  unfolding EM_evaluate_def safe_evaluate_def evaluate_exact_match_def assms
  by (rule refl)

lemma CM_evaluate_cong:
  assumes "ground_truth_sql c1 = ground_truth_sql c2" and "predicted_sql c1 = predicted_sql c2"
  shows "CM_evaluate parse c1 = CM_evaluate parse c2"
  unfolding CM_evaluate_def safe_evaluate_def evaluate_components_def assms
  by (rule refl)

lemma EX_evaluate_cong:
  assumes "ground_truth_sql c1 = ground_truth_sql c2" and "predicted_sql c1 = predicted_sql c2"
    and "database_connection c1 = database_connection c2"
  shows "EX_evaluate timeout c1 = EX_evaluate timeout c2"
  unfolding EX_evaluate_def safe_evaluate_def evaluate_execution_def
    evaluate_execution_traced_def assms
  by (rule refl)

theorem metrics_ignore_question:
  assumes "ground_truth_sql c1 = ground_truth_sql c2" and "predicted_sql c1 = predicted_sql c2"
    and "database_connection c1 = database_connection c2"
  shows "(\<exists>r1 r2. EM_evaluate parse c1 = Inr r1 \<and> EM_evaluate parse c2 = Inr r2
            \<and> score r1 = score r2 \<and> is_correct r1 = is_correct r2)
       \<and> (\<exists>r1 r2. CM_evaluate parse c1 = Inr r1 \<and> CM_evaluate parse c2 = Inr r2
            \<and> score r1 = score r2 \<and> is_correct r1 = is_correct r2)
       \<and> (\<exists>r1 r2. EX_evaluate timeout c1 = Inr r1 \<and> EX_evaluate timeout c2 = Inr r2
            \<and> score r1 = score r2 \<and> is_correct r1 = is_correct r2)"
proof -
  obtain a where "EM_evaluate parse c2 = Inr a"
    using safe_evaluate_Inr unfolding EM_evaluate_def by blast
  moreover obtain b where "CM_evaluate parse c2 = Inr b"
    using safe_evaluate_Inr unfolding CM_evaluate_def by blast
  moreover obtain c where "EX_evaluate timeout c2 = Inr c"
    using safe_evaluate_Inr unfolding EX_evaluate_def by blast
  ultimately show ?thesis
    using EM_evaluate_cong [OF assms(1,2), of parse] CM_evaluate_cong [OF assms(1,2), of parse]
      EX_evaluate_cong [OF assms, of timeout]
    by simp
qed

theorem metrics_ignore_question_witness:
  "question_id count_context \<noteq> question_id renamed_context
   \<and> question count_context \<noteq> question renamed_context
   \<and> (\<exists>r1 r2. EM_evaluate no_parse count_context = Inr r1 \<and> EM_evaluate no_parse renamed_context = Inr r2
         \<and> score r1 = score r2 \<and> is_correct r1 = is_correct r2)
   \<and> (\<exists>r1 r2. CM_evaluate no_parse count_context = Inr r1 \<and> CM_evaluate no_parse renamed_context = Inr r2
         \<and> score r1 = score r2 \<and> is_correct r1 = is_correct r2)
   \<and> (\<exists>r1 r2. EX_evaluate 30 count_context = Inr r1 \<and> EX_evaluate 30 renamed_context = Inr r2
         \<and> score r1 = score r2 \<and> is_correct r1 = is_correct r2)"
  using metrics_ignore_question [of count_context renamed_context no_parse 30]
  by (simp add: renamed_context_def count_context_def)

section \<open>Execution Accuracy: results\<close>
















section \<open>Aggregation: results\<close>












section \<open>Projection comparison: results\<close>

lemma compare_individual_items_range:
  "compare_individual_items g p \<in> {0, 7 / 10, 1}"
  by (simp add: compare_individual_items_def Let_def)





















section \<open>Component Matching: results\<close>













section \<open>SQL normalizer: results\<close>

lemma normalize_statement_select_one:
  "normalize_statement select_one_tokens = ''SELECT 1 ''"
  "normalize_statement select_one_space_tokens = ''SELECT 1''"
  by code_simp+

lemma basic_normalize_select_one:
  "basic_normalize ''SELECT 1 ;'' = ''SELECT 1 ''"
  "basic_normalize ''SELECT 1 '' = ''SELECT 1''"
  by code_simp+

lemma strip_select_one:
  "strip ''SELECT 1 ;'' \<noteq> []" "strip ''SELECT 1 '' \<noteq> []"
  by code_simp+

text \<open>
  C6. Normalizing \<open>SELECT 1 ;\<close> gives \<open>SELECT 1\<close> followed by a space: white space is
  trimmed and collapsed before the trailing semicolon is removed, and the space in front
  of the semicolon stays. Normalizing that result gives \<open>SELECT 1\<close>, which is a
  different text, so normalizing twice is not the same as normalizing once. This holds
  whether the parser returns the tokens of the two statements or raises an exception
  (the fallback normalization is used then).
\<close>

theorem normalize_sql_not_idempotent:
  assumes "parse ''SELECT 1 ;'' = Inr select_one_tokens \<or> (\<exists>e. parse ''SELECT 1 ;'' = Inl e)"
      and "parse ''SELECT 1 '' = Inr select_one_space_tokens \<or> (\<exists>e. parse ''SELECT 1 '' = Inl e)"
  shows "normalize_sql parse ''SELECT 1 ;'' = ''SELECT 1 ''
     \<and> normalize_sql parse (normalize_sql parse ''SELECT 1 ;'') = ''SELECT 1''
     \<and> normalize_sql parse (normalize_sql parse ''SELECT 1 ;'') \<noteq> normalize_sql parse ''SELECT 1 ;''"
proof -
  have one: "normalize_sql parse ''SELECT 1 ;'' = ''SELECT 1 ''"
    using assms(1) strip_select_one(1)
    by (auto simp: normalize_sql_def normalize_statement_select_one basic_normalize_select_one)
  have two: "normalize_sql parse ''SELECT 1 '' = ''SELECT 1''"
    using assms(2) strip_select_one(2)
    by (auto simp: normalize_sql_def normalize_statement_select_one basic_normalize_select_one)
  from one two show ?thesis by simp
qed

theorem normalize_sql_not_idempotent_witness:
  "normalize_sql select_one_parse ''SELECT 1 ;'' = ''SELECT 1 ''
   \<and> normalize_sql select_one_parse (normalize_sql select_one_parse ''SELECT 1 ;'') = ''SELECT 1''
   \<and> normalize_sql no_parse (normalize_sql no_parse ''SELECT 1 ;'') \<noteq> normalize_sql no_parse ''SELECT 1 ;''"
proof -
  have a: "select_one_parse ''SELECT 1 ;'' = Inr select_one_tokens
             \<or> (\<exists>e. select_one_parse ''SELECT 1 ;'' = Inl e)"
    "select_one_parse ''SELECT 1 '' = Inr select_one_space_tokens
             \<or> (\<exists>e. select_one_parse ''SELECT 1 '' = Inl e)"
    by (simp_all add: select_one_parse_def)
  have b: "no_parse ''SELECT 1 ;'' = Inr select_one_tokens \<or> (\<exists>e. no_parse ''SELECT 1 ;'' = Inl e)"
    "no_parse ''SELECT 1 '' = Inr select_one_space_tokens \<or> (\<exists>e. no_parse ''SELECT 1 '' = Inl e)"
    by (simp_all add: no_parse_def)
  from normalize_sql_not_idempotent [OF a] normalize_sql_not_idempotent [OF b]
  show ?thesis by blast
qed

end
